theory Spec2Isabelle
  imports Main "HOL-Library.AList" "HOL-Library.Sublist"
begin

section \<open>Python values, responses and exceptions\<close>

text \<open>
  The values that travel through \<^verbatim>\<open>bulk.py\<close>: what \<^verbatim>\<open>result.json()\<close> and
  \<^verbatim>\<open>json.loads\<close> produce, what is handed to \<^verbatim>\<open>json.dumps\<close>, and the
  \<^verbatim>\<open>data\<close> argument of the public operations. A \<^verbatim>\<open>dict\<close> is the list of its
  items in insertion order (keys distinct); a number carries no behaviour that the bulk
  handler looks at, so integers stand for all of them.
\<close>

datatype json =
    JNull
  | JBool bool
  | JNum int
  | JStr string
  | JArr "json list"
  | JObj "(string \<times> json) list"

text \<open>The six exception classes defined at the end of \<^verbatim>\<open>bulk.py\<close>.\<close>

datatype exc_cls =
    SalesforceMoreThanOneRecord
  | SalesforceMalformedRequest
  | SalesforceExpiredSession
  | SalesforceRefusedRequest
  | SalesforceResourceNotFound
  | SalesforceGeneralError

text \<open>
  \<^verbatim>\<open>response_content\<close> of \<^verbatim>\<open>_exception_handler\<close>: the decoded body when
  \<^verbatim>\<open>result.json()\<close> succeeds, the raw \<^verbatim>\<open>result.text\<close> otherwise.
\<close>

datatype content = Parsed json | RawText string

text \<open>
  Modelled from the spec: the base class \<^verbatim>\<open>SalesforceError\<close> lives in
  \<^verbatim>\<open>simple_salesforce/util.py\<close>, which is not among the sources. The spec says that a
  raised error carries the request URL, the status code, the resource name and the captured
  body; the subclasses of \<^verbatim>\<open>bulk.py\<close> read them back as \<^verbatim>\<open>url\<close>,
  \<^verbatim>\<open>status\<close>, \<^verbatim>\<open>resource_name\<close> and \<^verbatim>\<open>content\<close>. So an instance
  built by \<^verbatim>\<open>exc_cls(url, status, resource_name, content)\<close> is the record of its class
  and its four constructor arguments.
\<close>

record salesforce_error =
  err_cls :: exc_cls
  err_url :: string
  err_status :: int
  err_resource_name :: string
  err_content :: content

text \<open>
  Everything that can be raised while a bulk call runs: the classified errors of the
  module, the exceptions of the Python operations it uses (\<^verbatim>\<open>d[k]\<close>, \<^verbatim>\<open>len\<close>,
  \<^verbatim>\<open>int\<close>), and whatever the transport or \<^verbatim>\<open>result.json()\<close> raises, kept by its
  message.
\<close>

datatype exn =
    Salesforce salesforce_error
  | KeyError json
  | IndexError
  | TypeError
  | ValueError string
  | LibraryError string

text \<open>
  A \<^verbatim>\<open>requests\<close> response, by the four attributes the module reads.
  \<^verbatim>\<open>json_body\<close> is the outcome of \<^verbatim>\<open>result.json()\<close>: the decoded value, or the
  exception it raises.
\<close>

record response =
  status_code :: int
  resp_url :: string
  resp_text :: string
  json_body :: "exn + json"

text \<open>
  How a call ends: it returns a value, it raises, or it is still inside one of the two
  \<^verbatim>\<open>while\<close> loops when the step budget of the model is used up.
\<close>

datatype 'a outcome = Returned 'a | Raised exn | Running

section \<open>The error classifier\<close>

definition exc_map :: "(int \<times> exc_cls) list" where
  "exc_map =
     [(300, SalesforceMoreThanOneRecord),
      (400, SalesforceMalformedRequest),
      (401, SalesforceExpiredSession),
      (403, SalesforceRefusedRequest),
      (404, SalesforceResourceNotFound)]"

text \<open>\<^verbatim>\<open>exc_map.get(status, SalesforceGeneralError)\<close>.\<close>

definition exc_map_get :: "int \<Rightarrow> exc_cls" where
  "exc_map_get status =
     (case map_of exc_map status of
        Some cls \<Rightarrow> cls
      | None \<Rightarrow> SalesforceGeneralError)"

definition exception_handler :: "response \<Rightarrow> string \<Rightarrow> unit outcome" where
  "exception_handler result name =
     (let response_content =
            (case json_body result of
               Inr j \<Rightarrow> Parsed j
             | Inl e \<Rightarrow> RawText (resp_text result));
          cls = exc_map_get (status_code result)
      in Raised (Salesforce
           \<lparr>err_cls = cls,
            err_url = resp_url result,
            err_status = status_code result,
            err_resource_name = name,
            err_content = response_content\<rparr>))"

section \<open>The HTTP call gate\<close>

text \<open>
  One request as \<^verbatim>\<open>session.request(method, url, headers=headers, **kwargs)\<close> sees it.
  The only keyword left in \<^verbatim>\<open>kwargs\<close> by the callers of this module is
  \<^verbatim>\<open>data\<close>, absent for the GET calls.
\<close>

record request =
  req_method :: string
  req_url :: string
  req_headers :: "(string \<times> string) list"
  req_data :: "json option"

text \<open>
  What the outside world sees of a run, in order: each request with what the transport
  answered (a response, or an exception raised by the transport), and each
  \<^verbatim>\<open>sleep(wait)\<close>.
\<close>

datatype event = Exchange request "exn + response" | Sleep nat

text \<open>
  The transport \<^verbatim>\<open>session.request\<close> is outside the module. Its answer to a request may
  depend on everything that happened before (the remote batch moves on between two polls),
  so it is a function of the history and of the request. It gets the header mapping to read,
  not to change.
\<close>

type_synonym transport = "event list \<Rightarrow> request \<Rightarrow> exn + response"

text \<open>
  The mutable state a call works on: the header dictionary that \<^verbatim>\<open>SFBulkHandler\<close>
  creates and every \<^verbatim>\<open>SFBulkType\<close> shares, the history of the exchanges with the
  remote system, and what \<^verbatim>\<open>print\<close> has written.
\<close>

record client =
  headers :: "(string \<times> string) list"
  trace :: "event list"
  printed :: "string list"

text \<open>\<^verbatim>\<open>d.update(other)\<close> on dictionaries kept as item lists.\<close>

definition dict_update :: "('k \<times> 'v) list \<Rightarrow> ('k \<times> 'v) list \<Rightarrow> ('k \<times> 'v) list" where
  "dict_update d other = fold (\<lambda>(k, v). AList.update k v) other d"

text \<open>
  \<^verbatim>\<open>_call_salesforce\<close>. \<^verbatim>\<open>additional_headers\<close> is \<^verbatim>\<open>None\<close> when the caller
  does not pass the keyword; \<^verbatim>\<open>additional_headers or dict()\<close> then is the empty
  dictionary.
\<close>

definition call_salesforce ::
  "transport \<Rightarrow> string \<Rightarrow> string \<Rightarrow> (string \<times> string) list option \<Rightarrow> json option
     \<Rightarrow> client \<Rightarrow> response outcome \<times> client" where
  "call_salesforce session url method additional_headers data s =
     (let additional = (case additional_headers of None \<Rightarrow> [] | Some ah \<Rightarrow> ah);
          hs = dict_update (headers s) additional;
          rq = \<lparr>req_method = method, req_url = url, req_headers = hs, req_data = data\<rparr>;
          answer = session (trace s) rq;
          s' = s\<lparr>headers := hs, trace := trace s @ [Exchange rq answer]\<rparr>
      in case answer of
           Inl e \<Rightarrow> (Raised e, s')
         | Inr result \<Rightarrow>
             if status_code result \<ge> 300 then
               (case exception_handler result [] of
                  Raised e \<Rightarrow> (Raised e, s')
                | Running \<Rightarrow> (Running, s')
                | Returned u \<Rightarrow> (Returned result, s'))
             else (Returned result, s'))"

section \<open>Python operations used by the handler\<close>

text \<open>
  The standard-library functions the module calls are not part of it: \<^verbatim>\<open>json.dumps\<close>,
  \<^verbatim>\<open>json.loads\<close> (its answer is the decoded value, or the message \<^verbatim>\<open>str(e)\<close> of the
  \<^verbatim>\<open>ValueError\<close> it raises) and the text that \<^verbatim>\<open>format\<close> produces for a value
  that is not a string. They are parameters of the model.
\<close>

record pylib =
  dumps :: "json \<Rightarrow> string"
  loads :: "string \<Rightarrow> string + json"
  str_of :: "json \<Rightarrow> string"

text \<open>One \<^verbatim>\<open>{}\<close> field of \<^verbatim>\<open>str.format\<close>: a string is inserted as it is.\<close>

definition format_field :: "pylib \<Rightarrow> json \<Rightarrow> string" where
  "format_field lib v = (case v of JStr s \<Rightarrow> s | _ \<Rightarrow> str_of lib v)"

text \<open>\<^verbatim>\<open>v[key]\<close> with a string key: only a dictionary has one.\<close>

definition subscript :: "json \<Rightarrow> string \<Rightarrow> json outcome" where
  "subscript v key =
     (case v of
        JObj items \<Rightarrow>
          (case map_of items key of
             Some x \<Rightarrow> Returned x
           | None \<Rightarrow> Raised (KeyError (JStr key)))
      | _ \<Rightarrow> Raised TypeError)"

text \<open>\<^verbatim>\<open>len(v)\<close>.\<close>

definition py_len :: "json \<Rightarrow> nat outcome" where
  "py_len v =
     (case v of
        JStr s \<Rightarrow> Returned (length s)
      | JArr xs \<Rightarrow> Returned (length xs)
      | JObj items \<Rightarrow> Returned (length items)
      | _ \<Rightarrow> Raised TypeError)"

text \<open>\<^verbatim>\<open>v[0]\<close>.\<close>

definition index0 :: "json \<Rightarrow> json outcome" where
  "index0 v =
     (case v of
        JStr s \<Rightarrow> (case s of [] \<Rightarrow> Raised IndexError | c # cs \<Rightarrow> Returned (JStr [c]))
      | JArr xs \<Rightarrow> (case xs of [] \<Rightarrow> Raised IndexError | x # ys \<Rightarrow> Returned x)
      | JObj items \<Rightarrow> Raised (KeyError (JNum 0))
      | _ \<Rightarrow> Raised TypeError)"

text \<open>\<^verbatim>\<open>result.json()\<close>, with or without \<^verbatim>\<open>object_pairs_hook\<close>.\<close>

definition response_json :: "response \<Rightarrow> json outcome" where
  "response_json result = (case json_body result of Inl e \<Rightarrow> Raised e | Inr j \<Rightarrow> Returned j)"

text \<open>Sequencing: the rest of a function body runs only when the step before returned.\<close>

definition and_then ::
  "'a outcome \<times> client \<Rightarrow> ('a \<Rightarrow> client \<Rightarrow> 'b outcome \<times> client) \<Rightarrow> 'b outcome \<times> client" where
  "and_then m f =
     (case m of
        (Returned a, s) \<Rightarrow> f a s
      | (Raised e, s) \<Rightarrow> (Raised e, s)
      | (Running, s) \<Rightarrow> (Running, s))"

section \<open>Jobs and batches\<close>

text \<open>
  An \<^verbatim>\<open>SFBulkType\<close> instance. Its \<^verbatim>\<open>headers\<close> attribute is the shared dictionary of
  the \<^verbatim>\<open>client\<close> state.
\<close>

record sf_bulk_type =
  object_name :: string
  bulk_url :: string
  session :: transport

text \<open>The dictionary \<^verbatim>\<open>payload\<close> of \<^verbatim>\<open>_create_job\<close>, lines 85 to 92.\<close>

definition create_job_payload :: "string \<Rightarrow> string \<Rightarrow> json \<Rightarrow> (string \<times> json) list" where
  "create_job_payload operation obj external_id_field =
     (let payload =
            [(''operation'', JStr operation),
             (''object'', JStr obj),
             (''contentType'', JStr ''JSON'')]
      in if operation = ''upsert''
         then AList.update ''externalIdFieldName'' external_id_field payload
         else payload)"

definition create_job ::
  "pylib \<Rightarrow> sf_bulk_type \<Rightarrow> string \<Rightarrow> string \<Rightarrow> json \<Rightarrow> client \<Rightarrow> json outcome \<times> client" where
  "create_job lib self operation obj external_id_field s =
     (let payload = create_job_payload operation obj external_id_field;
          url = bulk_url self @ ''job''
      in and_then
           (call_salesforce (session self) url ''POST'' None
              (Some (JStr (dumps lib (JObj payload)))) s)
           (\<lambda>result s'. (response_json result, s')))"

definition close_job ::
  "pylib \<Rightarrow> sf_bulk_type \<Rightarrow> json \<Rightarrow> client \<Rightarrow> json outcome \<times> client" where
  "close_job lib self job_id s =
     (let payload = [(''state'', JStr ''Closed'')];
          url = bulk_url self @ ''job/'' @ format_field lib job_id
      in and_then
           (call_salesforce (session self) url ''POST'' None
              (Some (JStr (dumps lib (JObj payload)))) s)
           (\<lambda>result s'. (response_json result, s')))"

definition get_job ::
  "pylib \<Rightarrow> sf_bulk_type \<Rightarrow> json \<Rightarrow> client \<Rightarrow> json outcome \<times> client" where
  "get_job lib self job_id s =
     (let url = bulk_url self @ ''job/'' @ format_field lib job_id
      in and_then
           (call_salesforce (session self) url ''GET'' None None s)
           (\<lambda>result s'. (response_json result, s')))"

text \<open>
  The body that \<^verbatim>\<open>_add_batch\<close> sends, lines 132 and 133: \<^verbatim>\<open>data\<close> is replaced by
  its serialization unless the operation is \<^verbatim>\<open>query\<close>.
\<close>

definition add_batch_body :: "pylib \<Rightarrow> json \<Rightarrow> string \<Rightarrow> json" where
  "add_batch_body lib data operation =
     (if operation \<noteq> ''query'' then JStr (dumps lib data) else data)"

definition add_batch ::
  "pylib \<Rightarrow> sf_bulk_type \<Rightarrow> json \<Rightarrow> json \<Rightarrow> string \<Rightarrow> client \<Rightarrow> json outcome \<times> client" where
  "add_batch lib self job_id data operation s =
     (let url = bulk_url self @ ''job/'' @ format_field lib job_id @ ''/batch''
      in and_then
           (call_salesforce (session self) url ''POST'' None
              (Some (add_batch_body lib data operation)) s)
           (\<lambda>result s'. (response_json result, s')))"

definition get_batch ::
  "pylib \<Rightarrow> sf_bulk_type \<Rightarrow> json \<Rightarrow> json \<Rightarrow> client \<Rightarrow> json outcome \<times> client" where
  "get_batch lib self job_id batch_id s =
     (let url = bulk_url self @ ''job/'' @ format_field lib job_id
                  @ ''/batch/'' @ format_field lib batch_id
      in and_then
           (call_salesforce (session self) url ''GET'' None None s)
           (\<lambda>result s'. (response_json result, s')))"

section \<open>Result retrieval and the repair loop\<close>

definition is_digit :: "char \<Rightarrow> bool" where
  "is_digit c = (c \<in> set ''0123456789'')"

fun strip_prefix :: "string \<Rightarrow> string \<Rightarrow> string option" where
  "strip_prefix [] s = Some s"
| "strip_prefix (p # ps) [] = None"
| "strip_prefix (p # ps) (c # cs) = (if p = c then strip_prefix ps cs else None)"

text \<open>The regular expression \<^verbatim>\<open>.\<close>: one character that is not a line feed.\<close>

definition any_char :: "string \<Rightarrow> string option" where
  "any_char s = (case s of [] \<Rightarrow> None | c # cs \<Rightarrow> if c = CHR 0x0A then None else Some cs)"

text \<open>
  \<^verbatim>\<open>pattern.fullmatch(str(e))\<close> for the pattern of line 172,
  \<^verbatim>\<open>Expecting ',' delimiter: line [0-9]* column [0-9]* .char ([0-9]*).\<close>
  The answer is group 1 of the match, or \<^verbatim>\<open>None\<close>. The first two digit runs are followed
  by a blank, so they take every digit there is; the last one is followed by \<^verbatim>\<open>.\<close> and
  the end of the text, so it is everything after \<^verbatim>\<open>char \<close> except the final
  character.
\<close>

definition pattern_fullmatch :: "string \<Rightarrow> string option" where
  "pattern_fullmatch e =
     (case strip_prefix ''Expecting ',' delimiter: line '' e of
        None \<Rightarrow> None
      | Some r1 \<Rightarrow>
     (case strip_prefix '' column '' (dropWhile is_digit r1) of
        None \<Rightarrow> None
      | Some r2 \<Rightarrow>
     (case strip_prefix '' '' (dropWhile is_digit r2) of
        None \<Rightarrow> None
      | Some r3 \<Rightarrow>
     (case any_char r3 of
        None \<Rightarrow> None
      | Some r4 \<Rightarrow>
     (case strip_prefix ''char '' r4 of
        None \<Rightarrow> None
      | Some r5 \<Rightarrow>
          if r5 \<noteq> [] \<and> last r5 \<noteq> CHR 0x0A \<and> list_all is_digit (butlast r5)
          then Some (butlast r5)
          else None)))))"

text \<open>
  \<^verbatim>\<open>int(group)\<close> on a run of decimal digits: the empty run is a \<^verbatim>\<open>ValueError\<close>.
\<close>

definition py_int :: "string \<Rightarrow> nat outcome" where
  "py_int ds =
     (if ds = [] then Raised (ValueError ''invalid literal for int() with base 10'')
      else Returned (foldl (\<lambda>n c. 10 * n + (of_char c - 48)) 0 ds))"

text \<open>
  The loop of lines 174 to 184. Each round decodes \<^verbatim>\<open>text\<close> and returns on success;
  on a \<^verbatim>\<open>ValueError\<close> it prints the message, and when the message matches the pattern
  it puts a comma at the reported offset. Then the next round starts, whether the
  message matched or not.
\<close>

fun repair_loop :: "pylib \<Rightarrow> nat \<Rightarrow> string \<Rightarrow> client \<Rightarrow> json outcome \<times> client" where
  "repair_loop lib fuel text s =
     (case loads lib text of
        Inr j \<Rightarrow> (Returned j, s)
      | Inl e \<Rightarrow>
          (let s' = s\<lparr>printed := printed s @ [e]\<rparr>
           in case fuel of
                0 \<Rightarrow> (Running, s')
              | Suc n \<Rightarrow>
                  (case pattern_fullmatch e of
                     Some group1 \<Rightarrow>
                       (case py_int group1 of
                          Returned pos \<Rightarrow>
                            repair_loop lib n (take pos text @ '','' @ drop pos text) s'
                        | Raised x \<Rightarrow> (Raised x, s')
                        | Running \<Rightarrow> (Running, s'))
                   | None \<Rightarrow> repair_loop lib n text s')))"

definition get_batch_results ::
  "pylib \<Rightarrow> sf_bulk_type \<Rightarrow> nat \<Rightarrow> json \<Rightarrow> json \<Rightarrow> string \<Rightarrow> client
     \<Rightarrow> json outcome \<times> client" where
  "get_batch_results lib self fuel job_id batch_id operation s =
     (let url = bulk_url self @ ''job/'' @ format_field lib job_id
                  @ ''/batch/'' @ format_field lib batch_id @ ''/result''
      in and_then (call_salesforce (session self) url ''GET'' None None s)
           (\<lambda>result s1.
              if operation = ''query'' then
                and_then (response_json result, s1)
                  (\<lambda>result_data s2.
                     and_then (py_len result_data, s2)
                       (\<lambda>n s3.
                          if n > 0 then
                            and_then (response_json result, s3)
                              (\<lambda>again s4.
                                 and_then (index0 again, s4)
                                   (\<lambda>first s5.
                                      let url_query_results = url @ ''/'' @ format_field lib first
                                      in and_then
                                           (call_salesforce (session self) url_query_results
                                              ''GET'' None None s5)
                                           (\<lambda>query_result s6. (response_json query_result, s6))))
                          else (Returned result_data, s3)))
              else repair_loop lib fuel (resp_text result) s1))"

section \<open>The orchestrated call\<close>

definition terminal_states :: "json list" where
  "terminal_states = [JStr ''Completed'', JStr ''Failed'', JStr ''Not Processed'']"

text \<open>
  \<^verbatim>\<open>self._get_batch(job_id=batch['jobId'], batch_id=batch['id'])['state']\<close>,
  lines 208 and 213.
\<close>

definition get_batch_state ::
  "pylib \<Rightarrow> sf_bulk_type \<Rightarrow> json \<Rightarrow> client \<Rightarrow> json outcome \<times> client" where
  "get_batch_state lib self batch s =
     and_then (subscript batch ''jobId'', s)
       (\<lambda>job_id s1.
          and_then (subscript batch ''id'', s1)
            (\<lambda>batch_id s2.
               and_then (get_batch lib self job_id batch_id s2)
                 (\<lambda>status s3. (subscript status ''state'', s3))))"

text \<open>
  The loop of lines 211 to 214, entered with the state that the first poll fetched.
  \<^verbatim>\<open>sleep(wait)\<close> is the event \<open>Sleep wait\<close>; \<^verbatim>\<open>wait\<close> is a number of seconds
  that is not negative.
\<close>

fun poll_loop ::
  "pylib \<Rightarrow> sf_bulk_type \<Rightarrow> nat \<Rightarrow> nat \<Rightarrow> json \<Rightarrow> json \<Rightarrow> client \<Rightarrow> json outcome \<times> client" where
  "poll_loop lib self fuel wait batch batch_status s =
     (if batch_status \<notin> set terminal_states then
        (case fuel of
           0 \<Rightarrow> (Running, s)
         | Suc n \<Rightarrow>
             (case get_batch_state lib self batch (s\<lparr>trace := trace s @ [Sleep wait]\<rparr>) of
                (Returned next_status, s') \<Rightarrow> poll_loop lib self n wait batch next_status s'
              | (Raised e, s') \<Rightarrow> (Raised e, s')
              | (Running, s') \<Rightarrow> (Running, s')))
      else (Returned batch_status, s))"

definition bulk_operation ::
  "pylib \<Rightarrow> sf_bulk_type \<Rightarrow> nat \<Rightarrow> string \<Rightarrow> string \<Rightarrow> json \<Rightarrow> json \<Rightarrow> nat \<Rightarrow> client
     \<Rightarrow> json outcome \<times> client" where
  "bulk_operation lib self fuel obj operation data external_id_field wait s =
     and_then (create_job lib self operation obj external_id_field s)
       (\<lambda>job s1.
     and_then (subscript job ''id'', s1)
       (\<lambda>job_id s2.
     and_then (add_batch lib self job_id data operation s2)
       (\<lambda>batch s3.
     and_then (subscript job ''id'', s3)
       (\<lambda>job_id' s4.
     and_then (close_job lib self job_id' s4)
       (\<lambda>closed s5.
     and_then (get_batch_state lib self batch s5)
       (\<lambda>batch_status s6.
     and_then (poll_loop lib self fuel wait batch batch_status s6)
       (\<lambda>final_status s7.
     and_then (subscript batch ''jobId'', s7)
       (\<lambda>batch_job_id s8.
     and_then (subscript batch ''id'', s8)
       (\<lambda>batch_id s9.
          get_batch_results lib self fuel batch_job_id batch_id operation s9)))))))))"

text \<open>
  The six public operations. \<^verbatim>\<open>external_id_field\<close> defaults to \<^verbatim>\<open>None\<close> and
  \<^verbatim>\<open>wait\<close> to 5.
\<close>

definition delete :: "pylib \<Rightarrow> sf_bulk_type \<Rightarrow> nat \<Rightarrow> json \<Rightarrow> client \<Rightarrow> json outcome \<times> client" where
  "delete lib self fuel data s =
     bulk_operation lib self fuel (object_name self) ''delete'' data JNull 5 s"

definition insert_records ::
  "pylib \<Rightarrow> sf_bulk_type \<Rightarrow> nat \<Rightarrow> json \<Rightarrow> client \<Rightarrow> json outcome \<times> client" where
  "insert_records lib self fuel data s =
     bulk_operation lib self fuel (object_name self) ''insert'' data JNull 5 s"

definition upsert ::
  "pylib \<Rightarrow> sf_bulk_type \<Rightarrow> nat \<Rightarrow> json \<Rightarrow> json \<Rightarrow> client \<Rightarrow> json outcome \<times> client" where
  "upsert lib self fuel data external_id_field s =
     bulk_operation lib self fuel (object_name self) ''upsert'' data external_id_field 5 s"

definition update :: "pylib \<Rightarrow> sf_bulk_type \<Rightarrow> nat \<Rightarrow> json \<Rightarrow> client \<Rightarrow> json outcome \<times> client" where
  "update lib self fuel data s =
     bulk_operation lib self fuel (object_name self) ''update'' data JNull 5 s"

definition hard_delete ::
  "pylib \<Rightarrow> sf_bulk_type \<Rightarrow> nat \<Rightarrow> json \<Rightarrow> client \<Rightarrow> json outcome \<times> client" where
  "hard_delete lib self fuel data s =
     bulk_operation lib self fuel (object_name self) ''hardDelete'' data JNull 5 s"

definition query :: "pylib \<Rightarrow> sf_bulk_type \<Rightarrow> nat \<Rightarrow> json \<Rightarrow> client \<Rightarrow> json outcome \<times> client" where
  "query lib self fuel data s =
     bulk_operation lib self fuel (object_name self) ''query'' data JNull 5 s"

section \<open>Notions used in the statements\<close>

text \<open>
  What \<^verbatim>\<open>_call_salesforce\<close> makes of the transport's answer, lines 274 to 277: an
  exception of the transport goes through, a status of 300 or more becomes the classified
  error, any other response is returned.
\<close>

definition gate_outcome :: "exn + response \<Rightarrow> response outcome" where
  "gate_outcome answer =
     (case answer of
        Inl e \<Rightarrow> Raised e
      | Inr result \<Rightarrow>
          if 300 \<le> status_code result
          then Raised (Salesforce
                 \<lparr>err_cls = exc_map_get (status_code result),
                  err_url = resp_url result,
                  err_status = status_code result,
                  err_resource_name = [],
                  err_content =
                    (case json_body result of
                       Inr j \<Rightarrow> Parsed j
                     | Inl e \<Rightarrow> RawText (resp_text result))\<rparr>)
          else Returned result)"

text \<open>The request of a call that passes no \<^verbatim>\<open>additional_headers\<close>.\<close>

definition plain_request :: "client \<Rightarrow> string \<Rightarrow> string \<Rightarrow> json option \<Rightarrow> request" where
  "plain_request s method url data =
     \<lparr>req_method = method, req_url = url, req_headers = headers s, req_data = data\<rparr>"

text \<open>The state after one request has been answered.\<close>

definition exchanged :: "transport \<Rightarrow> client \<Rightarrow> request \<Rightarrow> client" where
  "exchanged tr s rq = s\<lparr>trace := trace s @ [Exchange rq (tr (trace s) rq)]\<rparr>"


text \<open>
  What the five helpers that make one call give back, as a function of the transport's
  answer: \<^verbatim>\<open>result.json(...)\<close> of the response that the gate returned.
\<close>

definition decoded_answer :: "exn + response \<Rightarrow> json outcome" where
  "decoded_answer answer =
     (case gate_outcome answer of
        Returned result \<Rightarrow> response_json result
      | Raised e \<Rightarrow> Raised e
      | Running \<Rightarrow> Running)"

text \<open>The URL of the result resource of a batch, lines 152 and 153.\<close>

definition result_url :: "pylib \<Rightarrow> sf_bulk_type \<Rightarrow> json \<Rightarrow> json \<Rightarrow> string" where
  "result_url lib self job_id batch_id =
     bulk_url self @ ''job/'' @ format_field lib job_id
       @ ''/batch/'' @ format_field lib batch_id @ ''/result''"


text \<open>The requests of a history, in order; the sleeps are left out.\<close>

definition requests_of :: "event list \<Rightarrow> request list" where
  "requests_of evs = concat (map (\<lambda>ev. case ev of Exchange rq a \<Rightarrow> [rq] | Sleep n \<Rightarrow> []) evs)"

text \<open>
  The decimal numeral of a number, as Python prints it, and the message of the decoder's
  delimiter error for a line, a column and a character offset:
  \<^verbatim>\<open>Expecting ',' delimiter: line 1 column 9 (char 8)\<close>.
\<close>

definition digit_char :: "nat \<Rightarrow> char" where
  "digit_char d = ''0123456789'' ! d"

fun decimal :: "nat \<Rightarrow> string" where
  "decimal n = (if n < 10 then [digit_char n] else decimal (n div 10) @ [digit_char (n mod 10)])"

definition delimiter_message :: "nat \<Rightarrow> nat \<Rightarrow> nat \<Rightarrow> string" where
  "delimiter_message line column pos =
     ''Expecting ',' delimiter: line '' @ decimal line @ '' column '' @ decimal column
       @ '' (char '' @ decimal pos @ '')''"













section \<open>A scripted transport\<close>

text \<open>
  A mock transport for concrete runs: the n-th request is answered by the n-th response of
  a script, and the connection fails when the script is used up.
\<close>

definition is_exchange :: "event \<Rightarrow> bool" where
  "is_exchange ev = (case ev of Exchange rq a \<Rightarrow> True | Sleep n \<Rightarrow> False)"

definition scripted :: "response list \<Rightarrow> transport" where
  "scripted script history rq =
     (case drop (length (filter is_exchange history)) script of
        [] \<Rightarrow> Inl (LibraryError ''ConnectionError'')
      | r # rest \<Rightarrow> Inr r)"

definition ok_json :: "json \<Rightarrow> response" where
  "ok_json j = \<lparr>status_code = 200, resp_url = [], resp_text = [], json_body = Inr j\<rparr>"

definition ok_text :: "string \<Rightarrow> response" where
  "ok_text t =
     \<lparr>status_code = 200, resp_url = [], resp_text = t,
      json_body = Inl (ValueError ''not decoded'')\<rparr>"

definition switching_protocols :: response where
  "switching_protocols =
     \<lparr>status_code = 101, resp_url = ''https://x/job'', resp_text = [],
      json_body = Inl (ValueError ''no body'')\<rparr>"

definition fresh :: client where
  "fresh =
     \<lparr>headers = [(''Content-Type'', ''application/json''),
                 (''X-SFDC-Session'', ''sid''),
                 (''X-PrettyPrint'', ''1'')],
      trace = [], printed = []\<rparr>"

text \<open>
  Stand-ins for the library functions in concrete runs. \<open>stub_loads\<close> is a table of the
  answers of Python's \<^verbatim>\<open>json.loads\<close> for the texts that the runs below decode: two
  objects side by side, with and without a comma, are \<^verbatim>\<open>Extra data\<close>; objects side
  by side inside a list miss a delimiter at the offset where the next object starts; a
  truncated object is \<^verbatim>\<open>Expecting value\<close>. The last line is the answer for the empty
  text and stands for every text outside the table; no run decodes one.
\<close>

definition stub_loads :: "string \<Rightarrow> string + json" where
  "stub_loads t =
     (if t = ''{\"a\":1}{\"b\":2}''
        then Inl ''Extra data: line 1 column 8 (char 7)''
      else if t = ''{\"a\":1},{\"b\":2}''
        then Inl ''Extra data: line 1 column 8 (char 7)''
      else if t = ''[{\"a\":1}{\"b\":2}]''
        then Inl ''Expecting ',' delimiter: line 1 column 9 (char 8)''
      else if t = ''[{\"a\":1},{\"b\":2}]''
        then Inr (JArr [JObj [(''a'', JNum 1)], JObj [(''b'', JNum 2)]])
      else if t = ''[{\"a\":1}{\"b\":2}{\"c\":3}]''
        then Inl ''Expecting ',' delimiter: line 1 column 9 (char 8)''
      else if t = ''[{\"a\":1},{\"b\":2}{\"c\":3}]''
        then Inl ''Expecting ',' delimiter: line 1 column 17 (char 16)''
      else if t = ''[{\"a\":1},{\"b\":2},{\"c\":3}]''
        then Inr (JArr [JObj [(''a'', JNum 1)], JObj [(''b'', JNum 2)], JObj [(''c'', JNum 3)]])
      else if t = ''[]'' then Inr (JArr [])
      else if t = ''{\"a\":''
        then Inl ''Expecting value: line 1 column 6 (char 5)''
      else Inl ''Expecting value: line 1 column 1 (char 0)'')"

definition stub_lib :: pylib where
  "stub_lib = \<lparr>dumps = (\<lambda>v. ''<json>''), loads = stub_loads, str_of = (\<lambda>v. ''<value>'')\<rparr>"

definition contacts :: "response list \<Rightarrow> sf_bulk_type" where
  "contacts script =
     \<lparr>object_name = ''Contact'', bulk_url = ''https://x/async/'', session = scripted script\<rparr>"


definition not_processed_script :: "response list" where
  "not_processed_script =
     [ok_json (JObj [(''id'', JStr ''751''), (''state'', JStr ''NotProcessed'')]),
      ok_json (JObj [(''id'', JStr ''751''), (''state'', JStr ''NotProcessed'')]),
      ok_json (JObj [(''id'', JStr ''751''), (''state'', JStr ''NotProcessed'')])]"



section \<open>The classifier and the gate\<close>

declare repair_loop.simps [simp del]
declare poll_loop.simps [simp del]
declare decimal.simps [simp del]

lemma exc_map_get_cases:
  "exc_map_get status =
     (if status = 300 then SalesforceMoreThanOneRecord
      else if status = 400 then SalesforceMalformedRequest
      else if status = 401 then SalesforceExpiredSession
      else if status = 403 then SalesforceRefusedRequest
      else if status = 404 then SalesforceResourceNotFound
      else SalesforceGeneralError)"
  by (simp add: exc_map_get_def exc_map_def)

lemma dict_update_Nil: "dict_update d [] = d"
  by (simp add: dict_update_def)

text \<open>
  C6. The classifier never returns: for every response and resource name it raises, and the
  class of the error is \<open>SalesforceMoreThanOneRecord\<close> for 300,
  \<open>SalesforceMalformedRequest\<close> for 400, \<open>SalesforceExpiredSession\<close> for 401,
  \<open>SalesforceRefusedRequest\<close> for 403, \<open>SalesforceResourceNotFound\<close> for 404 and
  \<open>SalesforceGeneralError\<close> for every other status. The error carries the URL and the
  status of the response, the resource name, and the body: decoded when \<^verbatim>\<open>result.json()\<close>
  succeeds, the raw text otherwise.
\<close>

theorem exception_handler_always_raises:
  "exception_handler result name =
     Raised (Salesforce
       \<lparr>err_cls =
          (if status_code result = 300 then SalesforceMoreThanOneRecord
           else if status_code result = 400 then SalesforceMalformedRequest
           else if status_code result = 401 then SalesforceExpiredSession
           else if status_code result = 403 then SalesforceRefusedRequest
           else if status_code result = 404 then SalesforceResourceNotFound
           else SalesforceGeneralError),
        err_url = resp_url result,
        err_status = status_code result,
        err_resource_name = name,
        err_content =
          (case json_body result of
             Inr j \<Rightarrow> Parsed j
           | Inl e \<Rightarrow> RawText (resp_text result))\<rparr>)"
  by (simp add: exception_handler_def exc_map_get_cases)

theorem exception_handler_always_raises_witness:
  "exception_handler
     \<lparr>status_code = 404, resp_url = ''https://x/job/1'', resp_text = ''gone'',
      json_body = Inl (ValueError ''no json'')\<rparr> ''Lead'' =
   Raised (Salesforce
     \<lparr>err_cls = SalesforceResourceNotFound, err_url = ''https://x/job/1'', err_status = 404,
      err_resource_name = ''Lead'', err_content = RawText ''gone''\<rparr>)
   \<and> exception_handler
     \<lparr>status_code = 500, resp_url = ''https://x/job/1'', resp_text = ''[]'',
      json_body = Inr (JArr [])\<rparr> [] =
   Raised (Salesforce
     \<lparr>err_cls = SalesforceGeneralError, err_url = ''https://x/job/1'', err_status = 500,
      err_resource_name = [], err_content = Parsed (JArr [])\<rparr>)"
  using exception_handler_always_raises
          [of "\<lparr>status_code = 404, resp_url = ''https://x/job/1'', resp_text = ''gone'',
                json_body = Inl (ValueError ''no json'')\<rparr>" "''Lead''"]
        exception_handler_always_raises
          [of "\<lparr>status_code = 500, resp_url = ''https://x/job/1'', resp_text = ''[]'',
                json_body = Inr (JArr [])\<rparr>" "[]"]
  by simp

text \<open>
  C5, as stated, fails: the gate compares the status with 300 only, so a response below
  200 is returned as a value. Here the transport answers 101, which is not a 2xx status,
  and the gate returns the response.
\<close>

theorem call_salesforce_informational_counterexample:
  "fst (call_salesforce (scripted [switching_protocols]) ''https://x/job'' ''GET'' None None fresh)
     = Returned switching_protocols
   \<and> status_code switching_protocols = 101"
  by (simp add: call_salesforce_def scripted_def switching_protocols_def fresh_def
        dict_update_def Let_def)

text \<open>
  C5, amended. For every call made through the gate that the transport answers with a
  response: the response is returned to the caller as a value exactly when its status is
  below 300, and no other value is ever returned; a status of 300 or above is routed to
  the error classifier, and the call raises the classified error.
\<close>

theorem call_salesforce_gate:
  assumes "tr (trace s)
             \<lparr>req_method = method, req_url = url,
              req_headers = dict_update (headers s)
                              (case additional_headers of None \<Rightarrow> [] | Some ah \<Rightarrow> ah),
              req_data = data\<rparr> = Inr result"
  shows "(fst (call_salesforce tr url method additional_headers data s) = Returned result
            \<longleftrightarrow> status_code result < 300)
       \<and> (300 \<le> status_code result \<longrightarrow>
            fst (call_salesforce tr url method additional_headers data s)
              = Raised (Salesforce
                  \<lparr>err_cls = exc_map_get (status_code result),
                   err_url = resp_url result,
                   err_status = status_code result,
                   err_resource_name = [],
                   err_content =
                     (case json_body result of
                        Inr j \<Rightarrow> Parsed j
                      | Inl e \<Rightarrow> RawText (resp_text result))\<rparr>))
       \<and> (\<forall>r. fst (call_salesforce tr url method additional_headers data s) = Returned r
              \<longrightarrow> r = result)"
  using assms by (simp add: call_salesforce_def exception_handler_def Let_def)

theorem call_salesforce_gate_witness:
  "fst (call_salesforce (scripted [ok_json (JArr [])]) ''https://x/job'' ''GET'' None None fresh)
     = Returned (ok_json (JArr []))
   \<and> status_code (ok_json (JArr [])) < 300"
  using call_salesforce_gate
          [of "scripted [ok_json (JArr [])]" fresh "''GET''" "''https://x/job''" None None
              "ok_json (JArr [])"]
  by (simp add: scripted_def fresh_def ok_json_def dict_update_def)

section \<open>The helpers that make one call\<close>

lemma and_then_Returned:
  "and_then m f = (Returned b, s') \<longleftrightarrow> (\<exists>a s1. m = (Returned a, s1) \<and> f a s1 = (Returned b, s'))"
  by (cases m; cases "fst m") (auto simp: and_then_def)

lemma and_then_simps:
  "and_then (Returned a, s) f = f a s"
  "and_then (Raised e, s) f = (Raised e, s)"
  "and_then (Running, s) f = (Running, s)"
  by (simp_all add: and_then_def)

lemma call_salesforce_plain:
  "call_salesforce tr url method None data s =
     (gate_outcome (tr (trace s) (plain_request s method url data)),
      exchanged tr s (plain_request s method url data))"
  by (simp add: call_salesforce_def gate_outcome_def plain_request_def exchanged_def
        dict_update_Nil exception_handler_def Let_def split: sum.splits)

lemma call_then_json:
  "and_then (call_salesforce tr url method None data s) (\<lambda>result s'. (response_json result, s'))
     = (decoded_answer (tr (trace s) (plain_request s method url data)),
        exchanged tr s (plain_request s method url data))"
  by (simp add: call_salesforce_plain decoded_answer_def and_then_def split: outcome.splits)

lemma create_job_eq:
  "create_job lib self operation obj external_id_field s =
     (let rq = plain_request s ''POST'' (bulk_url self @ ''job'')
                 (Some (JStr (dumps lib (JObj (create_job_payload operation obj external_id_field)))))
      in (decoded_answer (session self (trace s) rq), exchanged (session self) s rq))"
  by (simp add: create_job_def call_then_json Let_def)

lemma close_job_eq:
  "close_job lib self job_id s =
     (let rq = plain_request s ''POST'' (bulk_url self @ ''job/'' @ format_field lib job_id)
                 (Some (JStr (dumps lib (JObj [(''state'', JStr ''Closed'')]))))
      in (decoded_answer (session self (trace s) rq), exchanged (session self) s rq))"
  by (simp add: close_job_def call_then_json Let_def)

lemma add_batch_eq:
  "add_batch lib self job_id data operation s =
     (let rq = plain_request s ''POST''
                 (bulk_url self @ ''job/'' @ format_field lib job_id @ ''/batch'')
                 (Some (add_batch_body lib data operation))
      in (decoded_answer (session self (trace s) rq), exchanged (session self) s rq))"
  by (simp add: add_batch_def call_then_json Let_def)

lemma get_batch_eq:
  "get_batch lib self job_id batch_id s =
     (let rq = plain_request s ''GET''
                 (bulk_url self @ ''job/'' @ format_field lib job_id
                    @ ''/batch/'' @ format_field lib batch_id) None
      in (decoded_answer (session self (trace s) rq), exchanged (session self) s rq))"
  by (simp add: get_batch_def call_then_json Let_def)

lemma create_job_payload_cases:
  "create_job_payload operation obj external_id_field =
     (if operation = ''upsert''
      then [(''operation'', JStr operation), (''object'', JStr obj),
            (''contentType'', JStr ''JSON''), (''externalIdFieldName'', external_id_field)]
      else [(''operation'', JStr operation), (''object'', JStr obj),
            (''contentType'', JStr ''JSON'')])"
  by (simp add: create_job_payload_def)

text \<open>
  C7. The payload of a job-creation call has the field \<^verbatim>\<open>externalIdFieldName\<close>, with
  the supplied external-id field as its value, if and only if the operation is
  \<^verbatim>\<open>upsert\<close>. For every other operation the payload is exactly \<^verbatim>\<open>operation\<close>,
  \<^verbatim>\<open>object\<close> and the fixed \<^verbatim>\<open>contentType\<close>; for \<^verbatim>\<open>upsert\<close> it is these three
  and the external-id field. The call POSTs the serialized payload to the \<^verbatim>\<open>job\<close>
  resource, whatever the answer is.
\<close>

theorem create_job_payload_external_id:
  "(map_of (create_job_payload operation obj external_id_field) ''externalIdFieldName''
      = (if operation = ''upsert'' then Some external_id_field else None))
   \<and> (operation \<noteq> ''upsert'' \<longrightarrow>
        create_job_payload operation obj external_id_field =
          [(''operation'', JStr operation), (''object'', JStr obj),
           (''contentType'', JStr ''JSON'')])
   \<and> (operation = ''upsert'' \<longrightarrow>
        create_job_payload operation obj external_id_field =
          [(''operation'', JStr ''upsert''), (''object'', JStr obj),
           (''contentType'', JStr ''JSON''), (''externalIdFieldName'', external_id_field)])
   \<and> snd (create_job lib self operation obj external_id_field s) =
        exchanged (session self) s
          \<lparr>req_method = ''POST'', req_url = bulk_url self @ ''job'',
           req_headers = headers s,
           req_data = Some (JStr (dumps lib
                        (JObj (create_job_payload operation obj external_id_field))))\<rparr>"
  by (simp add: create_job_payload_cases create_job_eq plain_request_def Let_def)

theorem create_job_payload_external_id_witness:
  "create_job_payload ''upsert'' ''Contact'' (JStr ''Ext__c'') =
     [(''operation'', JStr ''upsert''), (''object'', JStr ''Contact''),
      (''contentType'', JStr ''JSON''), (''externalIdFieldName'', JStr ''Ext__c'')]
   \<and> create_job_payload ''hardDelete'' ''Contact'' JNull =
     [(''operation'', JStr ''hardDelete''), (''object'', JStr ''Contact''),
      (''contentType'', JStr ''JSON'')]"
  using create_job_payload_external_id [of "''upsert''" "''Contact''" "JStr ''Ext__c''"]
        create_job_payload_external_id [of "''hardDelete''" "''Contact''" JNull]
  by simp

text \<open>
  C8. A batch submission POSTs one request to the \<^verbatim>\<open>batch\<close> resource of the job. Its
  body is the serialization \<^verbatim>\<open>json.dumps(data)\<close> of the supplied data when the operation
  is not \<^verbatim>\<open>query\<close>, and the supplied data itself, unmodified, when the operation is
  \<^verbatim>\<open>query\<close>.
\<close>

theorem add_batch_serializes:
  "snd (add_batch lib self job_id data operation s) =
     exchanged (session self) s
       \<lparr>req_method = ''POST'',
        req_url = bulk_url self @ ''job/'' @ format_field lib job_id @ ''/batch'',
        req_headers = headers s,
        req_data = Some (if operation = ''query'' then data else JStr (dumps lib data))\<rparr>"
  by (simp add: add_batch_eq add_batch_body_def plain_request_def Let_def)

section \<open>The shared header mapping\<close>

lemma headers_exchanged [simp]: "headers (exchanged tr s rq) = headers s"
  by (simp add: exchanged_def)

lemma trace_exchanged: "trace (exchanged tr s rq) = trace s @ [Exchange rq (tr (trace s) rq)]"
  by (simp add: exchanged_def)

lemma plain_request_exchanged [simp]:
  "plain_request (exchanged tr s rq) method url data = plain_request s method url data"
  by (simp add: plain_request_def)

lemma and_then_headers:
  assumes "headers (snd m) = h"
    and "\<And>a s. headers s = h \<Longrightarrow> headers (snd (f a s)) = h"
  shows "headers (snd (and_then m f)) = h"
  using assms by (cases m; cases "fst m") (auto simp: and_then_def)

lemma headers_create_job: "headers (snd (create_job lib self operation obj ext s)) = headers s"
  by (simp add: create_job_eq Let_def)

lemma headers_close_job: "headers (snd (close_job lib self job_id s)) = headers s"
  by (simp add: close_job_eq Let_def)

lemma headers_add_batch: "headers (snd (add_batch lib self job_id data operation s)) = headers s"
  by (simp add: add_batch_eq Let_def)

lemma headers_get_batch: "headers (snd (get_batch lib self job_id batch_id s)) = headers s"
  by (simp add: get_batch_eq Let_def)

lemma headers_get_batch_state: "headers (snd (get_batch_state lib self batch s)) = headers s"
  unfolding get_batch_state_def
  by (intro and_then_headers) (simp_all add: headers_get_batch)

lemma repair_loop_decoded:
  "loads lib t = Inr j \<Longrightarrow> repair_loop lib fuel t s = (Returned j, s)"
  by (simp add: repair_loop.simps)

lemma repair_loop_0:
  "loads lib t = Inl e \<Longrightarrow> repair_loop lib 0 t s = (Running, s\<lparr>printed := printed s @ [e]\<rparr>)"
  by (simp add: repair_loop.simps)

lemma repair_loop_Suc:
  "loads lib t = Inl e \<Longrightarrow>
   repair_loop lib (Suc n) t s =
     (case pattern_fullmatch e of
        Some group1 \<Rightarrow>
          (case py_int group1 of
             Returned pos \<Rightarrow>
               repair_loop lib n (take pos t @ '','' @ drop pos t) (s\<lparr>printed := printed s @ [e]\<rparr>)
           | Raised x \<Rightarrow> (Raised x, s\<lparr>printed := printed s @ [e]\<rparr>)
           | Running \<Rightarrow> (Running, s\<lparr>printed := printed s @ [e]\<rparr>))
      | None \<Rightarrow> repair_loop lib n t (s\<lparr>printed := printed s @ [e]\<rparr>))"
  by (simp add: repair_loop.simps [of lib "Suc n"] Let_def)

lemma poll_loop_terminal:
  "batch_status \<in> set terminal_states \<Longrightarrow>
   poll_loop lib self fuel wait batch batch_status s = (Returned batch_status, s)"
  by (simp add: poll_loop.simps)

lemma poll_loop_0:
  "batch_status \<notin> set terminal_states \<Longrightarrow>
   poll_loop lib self 0 wait batch batch_status s = (Running, s)"
  by (simp add: poll_loop.simps)

lemma poll_loop_Suc:
  "batch_status \<notin> set terminal_states \<Longrightarrow>
   poll_loop lib self (Suc n) wait batch batch_status s =
     (case get_batch_state lib self batch (s\<lparr>trace := trace s @ [Sleep wait]\<rparr>) of
        (Returned next_status, s') \<Rightarrow> poll_loop lib self n wait batch next_status s'
      | (Raised e, s') \<Rightarrow> (Raised e, s')
      | (Running, s') \<Rightarrow> (Running, s'))"
  by (simp add: poll_loop.simps [of lib self "Suc n"])

lemma headers_repair_loop: "headers (snd (repair_loop lib fuel t s)) = headers s"
proof (induction fuel arbitrary: t s)
  case 0
  then show ?case
    by (cases "loads lib t") (simp_all add: repair_loop_0 repair_loop_decoded)
next
  case (Suc n)
  show ?case
  proof (cases "loads lib t")
    case (Inl e)
    then show ?thesis
      by (simp add: repair_loop_Suc Suc.IH split: option.splits outcome.splits)
  next
    case (Inr j)
    then show ?thesis by (simp add: repair_loop_decoded)
  qed
qed

lemma headers_poll_loop:
  "headers (snd (poll_loop lib self fuel wait batch batch_status s)) = headers s"
proof (induction fuel arbitrary: batch_status s)
  case 0
  then show ?case
    by (cases "batch_status \<in> set terminal_states") (simp_all add: poll_loop_0 poll_loop_terminal)
next
  case (Suc n)
  show ?case
  proof (cases "batch_status \<in> set terminal_states")
    case True
    then show ?thesis by (simp add: poll_loop_terminal)
  next
    case False
    have step: "headers (snd (get_batch_state lib self batch (s\<lparr>trace := trace s @ [Sleep wait]\<rparr>)))
                  = headers s"
      by (simp add: headers_get_batch_state)
    show ?thesis
    proof (cases "get_batch_state lib self batch (s\<lparr>trace := trace s @ [Sleep wait]\<rparr>)")
      case (Pair r s1)
      with step have "headers s1 = headers s" by simp
      with Pair False Suc.IH show ?thesis
        by (cases r) (simp_all add: poll_loop_Suc)
    qed
  qed
qed

lemma headers_get_batch_results:
  "headers (snd (get_batch_results lib self fuel job_id batch_id operation s)) = headers s"
  unfolding get_batch_results_def Let_def
  by (intro and_then_headers)
     (auto simp: call_salesforce_plain headers_repair_loop intro!: and_then_headers)

lemma headers_bulk_operation:
  "headers (snd (bulk_operation lib self fuel obj operation data ext wait s)) = headers s"
  unfolding bulk_operation_def
  by (intro and_then_headers)
     (simp_all add: headers_create_job headers_add_batch headers_close_job
        headers_get_batch_state headers_poll_loop headers_get_batch_results)

text \<open>
  C10. Each of the six public operations leaves the shared header mapping as it found it,
  however the call ends: every call of the flow goes through the gate without additional
  headers, so the in-place merge adds nothing.
\<close>

theorem public_operations_keep_headers:
  "headers (snd (insert_records lib self fuel data s)) = headers s
   \<and> headers (snd (update lib self fuel data s)) = headers s
   \<and> headers (snd (upsert lib self fuel data external_id_field s)) = headers s
   \<and> headers (snd (delete lib self fuel data s)) = headers s
   \<and> headers (snd (hard_delete lib self fuel data s)) = headers s
   \<and> headers (snd (query lib self fuel data s)) = headers s"
  by (simp add: insert_records_def update_def upsert_def delete_def hard_delete_def query_def
        headers_bulk_operation)

section \<open>The repair loop\<close>

lemma get_batch_results_fetch:
  assumes "session self (trace s)
             (plain_request s ''GET'' (result_url lib self job_id batch_id) None) = Inr result"
    and "status_code result < 300"
  shows "get_batch_results lib self fuel job_id batch_id operation s =
     (let s1 = s\<lparr>trace := trace s @
                  [Exchange (plain_request s ''GET'' (result_url lib self job_id batch_id) None)
                     (Inr result)]\<rparr>
      in if operation = ''query'' then
           and_then (response_json result, s1)
             (\<lambda>result_data s2.
                and_then (py_len result_data, s2)
                  (\<lambda>n s3.
                     if n > 0 then
                       and_then (response_json result, s3)
                         (\<lambda>again s4.
                            and_then (index0 again, s4)
                              (\<lambda>first s5.
                                 and_then
                                   (call_salesforce (session self)
                                      (result_url lib self job_id batch_id @ ''/''
                                         @ format_field lib first) ''GET'' None None s5)
                                   (\<lambda>query_result s6. (response_json query_result, s6))))
                     else (Returned result_data, s3)))
         else repair_loop lib fuel (resp_text result) s1)"
proof -
  have "call_salesforce (session self) (result_url lib self job_id batch_id) ''GET'' None None s
          = (Returned result,
             s\<lparr>trace := trace s @
                  [Exchange (plain_request s ''GET'' (result_url lib self job_id batch_id) None)
                     (Inr result)]\<rparr>)"
    using assms by (simp add: call_salesforce_plain gate_outcome_def exchanged_def)
  then show ?thesis
    unfolding get_batch_results_def result_url_def Let_def
    by (simp add: and_then_simps)
qed

text \<open>
  C3 says that a decoding error outside the delimiter pattern propagates to the caller. The
  loop does not do that: when the message does not match, the handler prints it and falls
  through to the next round with the same text, so the same error comes back for ever.
  Whatever the step budget, the call is still running and has printed the message once per
  round; it never raises.
\<close>

theorem repair_loop_other_error_never_raises:
  assumes "loads lib t = Inl e" and "pattern_fullmatch e = None"
  shows "repair_loop lib fuel t s = (Running, s\<lparr>printed := printed s @ replicate (Suc fuel) e\<rparr>)"
  using assms
proof (induction fuel arbitrary: s)
  case 0
  then show ?case by (simp add: repair_loop_0)
next
  case (Suc n)
  then show ?case
    by (simp add: repair_loop_Suc replicate_append_same)
qed

lemma digit_char_cases:
  "d < 10 \<Longrightarrow> d = 0 \<or> d = 1 \<or> d = 2 \<or> d = 3 \<or> d = 4 \<or> d = 5 \<or> d = 6 \<or> d = 7 \<or> d = 8
     \<or> d = (9::nat)"
  by arith

lemma is_digit_digit_char:
  assumes "d < 10"
  shows "is_digit (digit_char d)"
  using digit_char_cases [OF assms] by (elim disjE) (simp_all add: is_digit_def digit_char_def)

lemma of_char_digit_char:
  assumes "d < 10"
  shows "of_char (digit_char d) = 48 + d"
  using digit_char_cases [OF assms] by (elim disjE) (simp_all add: digit_char_def)

lemma decimal_digits: "list_all is_digit (decimal n)"
proof (induction n rule: decimal.induct)
  case (1 n)
  show ?case
  proof (cases "n < 10")
    case True
    then show ?thesis by (simp add: decimal.simps [of n] is_digit_digit_char)
  next
    case False
    with 1 show ?thesis by (simp add: decimal.simps [of n] is_digit_digit_char)
  qed
qed

lemma decimal_not_Nil: "decimal n \<noteq> []"
  by (simp add: decimal.simps [of n])

lemma foldl_decimal: "foldl (\<lambda>a c. 10 * a + (of_char c - 48)) 0 (decimal n) = n"
proof (induction n rule: decimal.induct)
  case (1 n)
  show ?case
  proof (cases "n < 10")
    case True
    then show ?thesis by (simp add: decimal.simps [of n] of_char_digit_char)
  next
    case False
    with 1 show ?thesis by (simp add: decimal.simps [of n] of_char_digit_char)
  qed
qed

lemma py_int_decimal: "py_int (decimal n) = Returned n"
  by (simp add: py_int_def decimal_not_Nil foldl_decimal)

lemma strip_prefix_append: "strip_prefix p (p @ s) = Some s"
  by (induction p) simp_all

lemma dropWhile_digits:
  "list_all is_digit ds \<Longrightarrow> \<not> is_digit c \<Longrightarrow> dropWhile is_digit (ds @ c # rest) = c # rest"
  by (induction ds) simp_all

lemma not_digit_blank: "\<not> is_digit CHR '' ''"
  by (simp add: is_digit_def)

lemma pattern_fullmatch_delimiter_message:
  "pattern_fullmatch (delimiter_message line column pos) = Some (decimal pos)"
proof -
  have 1: "strip_prefix ''Expecting ',' delimiter: line '' (delimiter_message line column pos)
             = Some (decimal line @ '' column '' @ decimal column @ '' (char '' @ decimal pos @ '')'')"
    unfolding delimiter_message_def by (rule strip_prefix_append)
  have 2: "dropWhile is_digit (decimal line @ '' column '' @ decimal column @ '' (char ''
                                 @ decimal pos @ '')'')
             = '' column '' @ decimal column @ '' (char '' @ decimal pos @ '')''"
    using dropWhile_digits [OF decimal_digits not_digit_blank] by simp
  have 3: "strip_prefix '' column '' ('' column '' @ decimal column @ '' (char '' @ decimal pos @ '')'')
             = Some (decimal column @ '' (char '' @ decimal pos @ '')'')"
    by (rule strip_prefix_append)
  have 4: "dropWhile is_digit (decimal column @ '' (char '' @ decimal pos @ '')'')
             = '' (char '' @ decimal pos @ '')''"
    using dropWhile_digits [OF decimal_digits not_digit_blank] by simp
  have 5: "butlast (decimal pos @ '')'') = decimal pos" "last (decimal pos @ '')'') = CHR '')''"
    by simp_all
  show ?thesis
    unfolding pattern_fullmatch_def 1 option.case 2 3 4
    by (simp add: any_char_def 5 decimal_digits del: butlast_append last_append)
qed

lemma delimiter_message_1_9_8:
  "delimiter_message 1 9 8 = ''Expecting ',' delimiter: line 1 column 9 (char 8)''"
  by (simp add: delimiter_message_def decimal.simps digit_char_def)

text \<open>
  C4, amended. In non-query result retrieval, when decoding the text fails with the
  delimiter-expectation message for any line, column and character offset \<open>pos\<close>, the next
  round decodes the text with one comma inserted at exactly \<open>pos\<close>, and so on until a
  text decodes, which is returned at once. In particular, for the result text
  \<^verbatim>\<open>[{"a":1}{"b":2}]\<close>: the decoder reports the missing delimiter at offset 8 and
  decodes the repaired text \<^verbatim>\<open>[{"a":1},{"b":2}]\<close>, so the retrieval returns that value
  after one repair.
\<close>

theorem repair_loop_inserts_comma:
  "(loads lib t = Inl (delimiter_message line column pos) \<longrightarrow>
      repair_loop lib (Suc n) t s =
        repair_loop lib n (take pos t @ '','' @ drop pos t)
          (s\<lparr>printed := printed s @ [delimiter_message line column pos]\<rparr>))
   \<and> (loads lib t = Inr j \<longrightarrow> repair_loop lib fuel t s = (Returned j, s))
   \<and> (operation \<noteq> ''query''
        \<and> session self (trace s)
             (plain_request s ''GET'' (result_url lib self job_id batch_id) None) = Inr result
        \<and> status_code result < 300
        \<and> resp_text result = ''[{\"a\":1}{\"b\":2}]''
        \<and> loads lib ''[{\"a\":1}{\"b\":2}]'' = Inl ''Expecting ',' delimiter: line 1 column 9 (char 8)''
        \<and> loads lib ''[{\"a\":1},{\"b\":2}]'' = Inr j \<longrightarrow>
      get_batch_results lib self (Suc n) job_id batch_id operation s =
        (Returned j,
         s\<lparr>trace := trace s @
              [Exchange (plain_request s ''GET'' (result_url lib self job_id batch_id) None)
                 (Inr result)],
           printed := printed s @ [''Expecting ',' delimiter: line 1 column 9 (char 8)'']\<rparr>))"
proof (intro conjI impI)
  assume "loads lib t = Inl (delimiter_message line column pos)"
  then show "repair_loop lib (Suc n) t s =
        repair_loop lib n (take pos t @ '','' @ drop pos t)
          (s\<lparr>printed := printed s @ [delimiter_message line column pos]\<rparr>)"
    by (simp add: repair_loop_Suc pattern_fullmatch_delimiter_message py_int_decimal)
next
  assume "loads lib t = Inr j"
  then show "repair_loop lib fuel t s = (Returned j, s)"
    by (simp add: repair_loop_decoded)
next
  let ?rq = "plain_request s ''GET'' (result_url lib self job_id batch_id) None"
  let ?e = "''Expecting ',' delimiter: line 1 column 9 (char 8)''"
  let ?s1 = "s\<lparr>trace := trace s @ [Exchange ?rq (Inr result)]\<rparr>"
  assume a: "operation \<noteq> ''query''
        \<and> session self (trace s) ?rq = Inr result
        \<and> status_code result < 300
        \<and> resp_text result = ''[{\"a\":1}{\"b\":2}]''
        \<and> loads lib ''[{\"a\":1}{\"b\":2}]'' = Inl ?e
        \<and> loads lib ''[{\"a\":1},{\"b\":2}]'' = Inr j"
  then have fetch: "get_batch_results lib self (Suc n) job_id batch_id operation s
                      = repair_loop lib (Suc n) ''[{\"a\":1}{\"b\":2}]'' ?s1"
    using get_batch_results_fetch [of self s lib job_id batch_id result "Suc n" operation]
    by (simp add: Let_def)
  from a have l: "loads lib ''[{\"a\":1}{\"b\":2}]'' = Inl (delimiter_message 1 9 8)"
    by (simp only: delimiter_message_1_9_8)
  have "repair_loop lib (Suc n) ''[{\"a\":1}{\"b\":2}]'' ?s1
          = repair_loop lib n (take 8 ''[{\"a\":1}{\"b\":2}]'' @ '','' @ drop 8 ''[{\"a\":1}{\"b\":2}]'')
              (?s1\<lparr>printed := printed ?s1 @ [delimiter_message 1 9 8]\<rparr>)"
    using l by (simp add: repair_loop_Suc pattern_fullmatch_delimiter_message py_int_decimal)
  then have "repair_loop lib (Suc n) ''[{\"a\":1}{\"b\":2}]'' ?s1
          = repair_loop lib n (take 8 ''[{\"a\":1}{\"b\":2}]'' @ '','' @ drop 8 ''[{\"a\":1}{\"b\":2}]'')
              (?s1\<lparr>printed := printed ?s1 @ [?e]\<rparr>)"
    by (simp only: delimiter_message_1_9_8)
  moreover have "take 8 ''[{\"a\":1}{\"b\":2}]'' @ '','' @ drop 8 ''[{\"a\":1}{\"b\":2}]''
               = ''[{\"a\":1},{\"b\":2}]''"
    by simp
  ultimately have "repair_loop lib (Suc n) ''[{\"a\":1}{\"b\":2}]'' ?s1
      = repair_loop lib n ''[{\"a\":1},{\"b\":2}]'' (?s1\<lparr>printed := printed ?s1 @ [?e]\<rparr>)"
    by (simp only:)
  also have "\<dots> = (Returned j, ?s1\<lparr>printed := printed ?s1 @ [?e]\<rparr>)"
    using a by (simp only: repair_loop_decoded)
  finally have "repair_loop lib (Suc n) ''[{\"a\":1}{\"b\":2}]'' ?s1
      = (Returned j, ?s1\<lparr>printed := printed ?s1 @ [?e]\<rparr>)" .
  with fetch show "get_batch_results lib self (Suc n) job_id batch_id operation s =
        (Returned j,
         s\<lparr>trace := trace s @ [Exchange ?rq (Inr result)], printed := printed s @ [?e]\<rparr>)"
    by simp
qed

section \<open>Query results\<close>


section \<open>The order of the requests\<close>


lemma requests_of_append [simp]: "requests_of (xs @ ys) = requests_of xs @ requests_of ys"
  by (simp add: requests_of_def)

lemma requests_of_simps [simp]:
  "requests_of [] = []"
  "requests_of (Exchange rq a # evs) = rq # requests_of evs"
  "requests_of (Sleep n # evs) = requests_of evs"
  by (simp_all add: requests_of_def)




lemma and_then_cases [case_names Continue Stop]:
  obtains (Continue) a s1 where "m = (Returned a, s1)" "and_then m f = f a s1"
        | (Stop) "and_then m f = m"
  by (cases m; cases "fst m") (auto simp: and_then_def)



















section \<open>The polling loop\<close>

text \<open>
  C2 names \<^verbatim>\<open>NotProcessed\<close> as the third state that stops the poller. The list in the
  loop condition of line 211 holds \<^verbatim>\<open>'Not Processed'\<close>, with a blank, instead. So a
  fetched state \<^verbatim>\<open>NotProcessed\<close> is not terminal for the code: with budget left the
  loop sleeps and polls again, and without budget it is still running; the state
  \<^verbatim>\<open>Not Processed\<close> is the one that stops it at once.
\<close>

theorem poll_loop_not_processed_keeps_polling:
  "JStr ''NotProcessed'' \<notin> set terminal_states
   \<and> poll_loop lib self (Suc n) wait batch (JStr ''NotProcessed'') s =
       (case get_batch_state lib self batch (s\<lparr>trace := trace s @ [Sleep wait]\<rparr>) of
          (Returned next_status, s') \<Rightarrow> poll_loop lib self n wait batch next_status s'
        | (Raised e, s') \<Rightarrow> (Raised e, s')
        | (Running, s') \<Rightarrow> (Running, s'))
   \<and> poll_loop lib self 0 wait batch (JStr ''NotProcessed'') s = (Running, s)
   \<and> poll_loop lib self fuel wait batch (JStr ''Not Processed'') s
        = (Returned (JStr ''Not Processed''), s)"
  by (simp add: poll_loop_Suc poll_loop_0 poll_loop_terminal terminal_states_def)

text \<open>
  A remote batch that stays in state \<^verbatim>\<open>NotProcessed\<close>: after two rounds the poller has
  slept twice and is still running.
\<close>

theorem poll_loop_not_processed_run:
  "fst (poll_loop stub_lib (contacts not_processed_script) (Suc (Suc 0)) 5
          (JObj [(''id'', JStr ''751''), (''jobId'', JStr ''750'')])
          (JStr ''NotProcessed'') fresh) = Running
   \<and> filter (\<lambda>ev. \<not> is_exchange ev)
        (trace (snd (poll_loop stub_lib (contacts not_processed_script) (Suc (Suc 0)) 5
          (JObj [(''id'', JStr ''751''), (''jobId'', JStr ''750'')])
          (JStr ''NotProcessed'') fresh))) = [Sleep 5, Sleep 5]"
  using poll_loop_not_processed_keeps_polling
          [of stub_lib "contacts not_processed_script" "Suc 0" 5
              "JObj [(''id'', JStr ''751''), (''jobId'', JStr ''750'')]" fresh "Suc (Suc 0)"]
        poll_loop_not_processed_keeps_polling
          [of stub_lib "contacts not_processed_script" 0 5
              "JObj [(''id'', JStr ''751''), (''jobId'', JStr ''750'')]"
              "snd (get_batch_state stub_lib (contacts not_processed_script)
                 (JObj [(''id'', JStr ''751''), (''jobId'', JStr ''750'')])
                 (fresh\<lparr>trace := trace fresh @ [Sleep 5]\<rparr>))" 0]
  by (simp add: get_batch_state_def get_batch_eq and_then_simps subscript_def
        contacts_def scripted_def not_processed_script_def ok_json_def fresh_def is_exchange_def
        decoded_answer_def gate_outcome_def response_json_def exchanged_def plain_request_def
        stub_lib_def format_field_def poll_loop_0 terminal_states_def Let_def)

section \<open>Concrete runs\<close>

theorem repair_loop_other_error_never_raises_witness:
  "repair_loop stub_lib (Suc (Suc 0)) ''{\"a\":'' fresh =
     (Running,
      fresh\<lparr>printed :=
        [''Expecting value: line 1 column 6 (char 5)'',
         ''Expecting value: line 1 column 6 (char 5)'',
         ''Expecting value: line 1 column 6 (char 5)'']\<rparr>)"
  using repair_loop_other_error_never_raises
          [of stub_lib "''{\"a\":''" "''Expecting value: line 1 column 6 (char 5)''"
              "Suc (Suc 0)" fresh]
  by (simp add: stub_lib_def stub_loads_def pattern_fullmatch_def fresh_def)




text \<open>
  The text of the example of C4 as it is stated: for \<^verbatim>\<open>{"a":1}{"b":2}\<close> the decoder
  reports \<^verbatim>\<open>Extra data\<close>, with or without a comma between the objects. The pattern
  does not match that message, so no comma is inserted and no round decodes the text.
\<close>

theorem repair_loop_extra_data_counterexample:
  "loads stub_lib ''{\"a\":1}{\"b\":2}'' = Inl ''Extra data: line 1 column 8 (char 7)''
   \<and> pattern_fullmatch ''Extra data: line 1 column 8 (char 7)'' = None
   \<and> loads stub_lib ''{\"a\":1},{\"b\":2}'' = Inl ''Extra data: line 1 column 8 (char 7)''
   \<and> fst (get_batch_results stub_lib (contacts [ok_text ''{\"a\":1}{\"b\":2}'']) (Suc (Suc 0))
             (JStr ''750'') (JStr ''751'') ''insert'' fresh) = Running
   \<and> printed (snd (get_batch_results stub_lib (contacts [ok_text ''{\"a\":1}{\"b\":2}''])
                       (Suc (Suc 0)) (JStr ''750'') (JStr ''751'') ''insert'' fresh))
       = [''Extra data: line 1 column 8 (char 7)'', ''Extra data: line 1 column 8 (char 7)'',
          ''Extra data: line 1 column 8 (char 7)'']"
  by code_simp

text \<open>
  Two objects side by side inside a list are repaired with one comma, three with two commas,
  each at the offset that the decoder reported.
\<close>

theorem repair_loop_inserts_comma_witness:
  "repair_loop stub_lib (Suc (Suc 0)) ''[{\"a\":1}{\"b\":2}{\"c\":3}]'' fresh =
     (Returned (JArr [JObj [(''a'', JNum 1)], JObj [(''b'', JNum 2)], JObj [(''c'', JNum 3)]]),
      fresh\<lparr>printed := printed fresh @
        [''Expecting ',' delimiter: line 1 column 9 (char 8)'',
         ''Expecting ',' delimiter: line 1 column 17 (char 16)'']\<rparr>)
   \<and> get_batch_results stub_lib (contacts [ok_text ''[{\"a\":1}{\"b\":2}]'']) (Suc 0)
         (JStr ''750'') (JStr ''751'') ''insert'' fresh =
       (Returned (JArr [JObj [(''a'', JNum 1)], JObj [(''b'', JNum 2)]]),
        fresh\<lparr>trace := trace fresh @
            [Exchange
               (plain_request fresh ''GET''
                  (result_url stub_lib (contacts [ok_text ''[{\"a\":1}{\"b\":2}]''])
                     (JStr ''750'') (JStr ''751'')) None)
               (Inr (ok_text ''[{\"a\":1}{\"b\":2}]''))],
          printed := printed fresh @ [''Expecting ',' delimiter: line 1 column 9 (char 8)'']\<rparr>)"
proof -
  let ?t0 = "''[{\"a\":1}{\"b\":2}{\"c\":3}]''"
  let ?t1 = "''[{\"a\":1},{\"b\":2}{\"c\":3}]''"
  let ?t2 = "''[{\"a\":1},{\"b\":2},{\"c\":3}]''"
  let ?j3 = "JArr [JObj [(''a'', JNum 1)], JObj [(''b'', JNum 2)], JObj [(''c'', JNum 3)]]"
  let ?j2 = "JArr [JObj [(''a'', JNum 1)], JObj [(''b'', JNum 2)]]"
  let ?self = "contacts [ok_text ''[{\"a\":1}{\"b\":2}]'']"
  have m8: "delimiter_message 1 9 8 = ''Expecting ',' delimiter: line 1 column 9 (char 8)''"
    and m16: "delimiter_message 1 17 16 = ''Expecting ',' delimiter: line 1 column 17 (char 16)''"
    by (simp_all add: delimiter_message_def decimal.simps digit_char_def)
  have l0: "loads stub_lib ?t0 = Inl (delimiter_message 1 9 8)"
    and l1: "loads stub_lib ?t1 = Inl (delimiter_message 1 17 16)"
    and l2: "loads stub_lib ?t2 = Inr ?j3"
    unfolding m8 m16 by (simp_all add: stub_lib_def stub_loads_def)
  have r0: "take 8 ?t0 @ '','' @ drop 8 ?t0 = ?t1" and r1: "take 16 ?t1 @ '','' @ drop 16 ?t1 = ?t2"
    by simp_all
  let ?s1 = "fresh\<lparr>printed := printed fresh @ [delimiter_message 1 9 8]\<rparr>"
  let ?s2 = "?s1\<lparr>printed := printed ?s1 @ [delimiter_message 1 17 16]\<rparr>"
  note step0 = repair_loop_inserts_comma
    [where lib = stub_lib and t = ?t0 and line = 1 and column = 9 and pos = 8 and n = "Suc 0"
       and s = fresh, THEN conjunct1, THEN mp, OF l0, unfolded r0]
  note step1 = repair_loop_inserts_comma
    [where lib = stub_lib and t = ?t1 and line = 1 and column = 17 and pos = 16 and n = 0
       and s = ?s1, THEN conjunct1, THEN mp, OF l1, unfolded r1]
  note step2 = repair_loop_inserts_comma
    [where lib = stub_lib and t = ?t2 and j = ?j3 and fuel = 0 and s = ?s2,
       THEN conjunct2, THEN conjunct1, THEN mp, OF l2]
  have first: "repair_loop stub_lib (Suc (Suc 0)) ?t0 fresh = (Returned ?j3, ?s2)"
    by (simp only: step0 step1 step2)
  have hyps: "''insert'' \<noteq> ''query''
        \<and> session ?self (trace fresh)
             (plain_request fresh ''GET'' (result_url stub_lib ?self (JStr ''750'') (JStr ''751''))
                None) = Inr (ok_text ''[{\"a\":1}{\"b\":2}]'')
        \<and> status_code (ok_text ''[{\"a\":1}{\"b\":2}]'') < 300
        \<and> resp_text (ok_text ''[{\"a\":1}{\"b\":2}]'') = ''[{\"a\":1}{\"b\":2}]''
        \<and> loads stub_lib ''[{\"a\":1}{\"b\":2}]''
            = Inl ''Expecting ',' delimiter: line 1 column 9 (char 8)''
        \<and> loads stub_lib ''[{\"a\":1},{\"b\":2}]'' = Inr ?j2"
    by (simp add: contacts_def scripted_def ok_text_def fresh_def stub_lib_def stub_loads_def)
  note second = repair_loop_inserts_comma
    [where lib = stub_lib and self = ?self and s = fresh and job_id = "JStr ''750''"
       and batch_id = "JStr ''751''" and operation = "''insert''"
       and result = "ok_text ''[{\"a\":1}{\"b\":2}]''" and j = ?j2 and n = 0,
       THEN conjunct2, THEN conjunct2, THEN mp, OF hyps]
  have printed2: "?s2 = fresh\<lparr>printed := printed fresh @
        [''Expecting ',' delimiter: line 1 column 9 (char 8)'',
         ''Expecting ',' delimiter: line 1 column 17 (char 16)'']\<rparr>"
    unfolding m8 m16 by simp
  from first [unfolded printed2] second show ?thesis
    by (intro conjI)
qed

end
